theory Spec2Isabelle
  imports Main "HOL-Library.Word"
begin

section \<open>pgsql-dbus: a D-Bus service answering with PostgreSQL query results\<close>

text \<open>
  A shallow embedding of \<^verbatim>\<open>src/pgsql-dbus.c\<close>. The three library interfaces the
  file talks to (libpq, sd-bus and the C library) are not part of the repository: what
  they return is taken from an environment record, and every call they receive is
  written to a list of effects, so that each run of a handler is a pure function from
  an environment and the \<^verbatim>\<open>context\<close> to an exit status, the effects and the final
  \<^verbatim>\<open>context\<close>.
\<close>

subsection \<open>Data\<close>

text \<open>\<^verbatim>\<open>typedef struct context { char * host; uint16_t port; } context;\<close>\<close>

record "context" =
  host :: string
  port :: "16 word"

text \<open>\<^verbatim>\<open>Oid\<close> is libpq's \<^verbatim>\<open>unsigned int\<close>.\<close>

type_synonym oid = "32 word"

text \<open>
  The type identifiers of \<^verbatim>\<open>server/catalog/pg_type_d.h\<close>, a PostgreSQL header that
  is not in the repository; the values are those of the PostgreSQL catalogue.
  \<^verbatim>\<open>NUMERICOID\<close> is one of the many identifiers the program does not list.
\<close>

definition BOOLOID :: oid where "BOOLOID = 16"
definition NAMEOID :: oid where "NAMEOID = 19"
definition INT8OID :: oid where "INT8OID = 20"
definition INT2OID :: oid where "INT2OID = 21"
definition INT4OID :: oid where "INT4OID = 23"
definition TEXTOID :: oid where "TEXTOID = 25"
definition OIDOID :: oid where "OIDOID = 26"
definition JSONOID :: oid where "JSONOID = 114"
definition XMLOID :: oid where "XMLOID = 142"
definition FLOAT4OID :: oid where "FLOAT4OID = 700"
definition FLOAT8OID :: oid where "FLOAT8OID = 701"
definition BPCHAROID :: oid where "BPCHAROID = 1042"
definition VARCHAROID :: oid where "VARCHAROID = 1043"
definition NUMERICOID :: oid where "NUMERICOID = 1700"

text \<open>The type codes of the D-Bus wire format (\<^verbatim>\<open>sd-bus-protocol.h\<close>).\<close>

definition SD_BUS_TYPE_BOOLEAN :: char where "SD_BUS_TYPE_BOOLEAN = CHR ''b''"
definition SD_BUS_TYPE_INT16 :: char where "SD_BUS_TYPE_INT16 = CHR ''n''"
definition SD_BUS_TYPE_INT32 :: char where "SD_BUS_TYPE_INT32 = CHR ''i''"
definition SD_BUS_TYPE_INT64 :: char where "SD_BUS_TYPE_INT64 = CHR ''x''"
definition SD_BUS_TYPE_DOUBLE :: char where "SD_BUS_TYPE_DOUBLE = CHR ''d''"
definition SD_BUS_TYPE_STRING :: char where "SD_BUS_TYPE_STRING = CHR ''s''"

subsection \<open>The type mapper\<close>

text \<open>\<^verbatim>\<open>oid_to_signature\<close>: a \<^verbatim>\<open>switch\<close> on the identifier, with a default.\<close>

definition oid_to_signature :: "oid \<Rightarrow> char" where
  "oid_to_signature oid =
     (if oid = BOOLOID then CHR ''b''
      else if oid = INT2OID then CHR ''n''
      else if oid = OIDOID \<or> oid = INT4OID then CHR ''i''
      else if oid = INT8OID then CHR ''x''
      else if oid = FLOAT4OID \<or> oid = FLOAT8OID then CHR ''d''
      else if oid = XMLOID \<or> oid = JSONOID \<or> oid = VARCHAROID \<or> oid = BPCHAROID
              \<or> oid = NAMEOID \<or> oid = TEXTOID then CHR ''s''
      else CHR ''s'')"

text \<open>
  The mapping table of section 4.1 of the specification, row by row, as an association
  list; \<open>mapType_spec\<close> looks an identifier up and answers string where the table has
  no row.
\<close>

definition mapType_table :: "(oid \<times> char) list" where
  "mapType_table =
     [(BOOLOID, SD_BUS_TYPE_BOOLEAN),
      (INT2OID, SD_BUS_TYPE_INT16),
      (INT4OID, SD_BUS_TYPE_INT32), (OIDOID, SD_BUS_TYPE_INT32),
      (INT8OID, SD_BUS_TYPE_INT64),
      (FLOAT4OID, SD_BUS_TYPE_DOUBLE), (FLOAT8OID, SD_BUS_TYPE_DOUBLE),
      (TEXTOID, SD_BUS_TYPE_STRING), (BPCHAROID, SD_BUS_TYPE_STRING),
      (VARCHAROID, SD_BUS_TYPE_STRING), (NAMEOID, SD_BUS_TYPE_STRING),
      (XMLOID, SD_BUS_TYPE_STRING), (JSONOID, SD_BUS_TYPE_STRING)]"

definition mapType_spec :: "oid \<Rightarrow> char" where
  "mapType_spec oid =
     (case map_of mapType_table oid of Some tag \<Rightarrow> tag | None \<Rightarrow> SD_BUS_TYPE_STRING)"

subsection \<open>The C library: characters, \<^verbatim>\<open>sprintf\<close>, \<^verbatim>\<open>strtol\<close>\<close>

text \<open>
  A C string is the list of its characters before the terminating NUL, so it holds
  no NUL itself; \<open>deref\<close> is \<^verbatim>\<open>*value\<close>, the first character, or the terminator
  when the string is empty.
\<close>

definition deref :: "string \<Rightarrow> char" where
  "deref v = (case v of [] \<Rightarrow> CHR 0x00 | c # _ \<Rightarrow> c)"

definition isspace :: "char \<Rightarrow> bool" where
  "isspace c = (of_char c \<in> {32, 9, 10, 11, 12, 13 :: nat})"

definition isdigit :: "char \<Rightarrow> bool" where
  "isdigit c = (48 \<le> (of_char c :: nat) \<and> (of_char c :: nat) \<le> 57)"

definition digit_value :: "char \<Rightarrow> int" where
  "digit_value c = int (of_char c) - 48"

definition digit_char :: "nat \<Rightarrow> char" where
  "digit_char d = ''0123456789'' ! d"

text \<open>\<^verbatim>\<open>sprintf(port, "%d", n)\<close> for a value that is not negative.\<close>

fun sprintf_d :: "nat \<Rightarrow> string" where
  "sprintf_d n =
     (if n < 10 then [digit_char n] else sprintf_d (n div 10) @ [digit_char (n mod 10)])"

declare sprintf_d.simps [simp del]

text \<open>
  \<^verbatim>\<open>strtol(nptr, NULL, 10)\<close> as the C standard describes it: white space is skipped,
  one sign is taken, the digits that follow are accumulated from the left and the
  conversion stops at the first character that is not a digit; with no digit at all
  the result is 0; a value outside \<^verbatim>\<open>long\<close> is replaced by the nearest bound.
  \<^verbatim>\<open>long\<close> and \<^verbatim>\<open>long long\<close> both have 64 bits here (LP64), so \<^verbatim>\<open>strtoll\<close>
  is the same function.
\<close>

fun accumulate_digits :: "int \<Rightarrow> string \<Rightarrow> int" where
  "accumulate_digits acc [] = acc"
| "accumulate_digits acc (c # cs) =
     (if isdigit c then accumulate_digits (acc * 10 + digit_value c) cs else acc)"

definition LONG_MAX :: int where "LONG_MAX = 2 ^ 63 - 1"
definition LONG_MIN :: int where "LONG_MIN = - (2 ^ 63)"

definition signed_digits :: "string \<Rightarrow> int" where
  "signed_digits s =
     (case s of
        [] \<Rightarrow> 0
      | c # cs \<Rightarrow>
          if c = CHR ''-'' then - accumulate_digits 0 cs
          else if c = CHR ''+'' then accumulate_digits 0 cs
          else accumulate_digits 0 (c # cs))"

definition strtol :: "string \<Rightarrow> int" where
  "strtol nptr =
     (let v = signed_digits (dropWhile isspace nptr)
      in if v > LONG_MAX then LONG_MAX else if v < LONG_MIN then LONG_MIN else v)"

definition strtoll :: "string \<Rightarrow> int" where
  "strtoll nptr = strtol nptr"

text \<open>
  \<^verbatim>\<open>strtod\<close> returns a floating-point number; the number is left uninterpreted and
  stands for "what \<^verbatim>\<open>strtod\<close> returns on this text".
\<close>

datatype c_double = Strtod string

subsection \<open>libpq: connections and results\<close>

datatype ConnStatusType = CONNECTION_OK | CONNECTION_BAD

datatype ExecStatusType =
  PGRES_EMPTY_QUERY | PGRES_COMMAND_OK | PGRES_TUPLES_OK | PGRES_COPY_OUT | PGRES_COPY_IN
  | PGRES_BAD_RESPONSE | PGRES_NONFATAL_ERROR | PGRES_FATAL_ERROR

text \<open>
  What \<^verbatim>\<open>PQconnectdbParams\<close> hands back: the status \<^verbatim>\<open>PQstatus\<close> reads and the
  text \<^verbatim>\<open>PQerrorMessage\<close> reads.
\<close>

record PGconn =
  PQstatus :: ConnStatusType
  PQerrorMessage :: string

text \<open>
  What \<^verbatim>\<open>PQexec\<close> hands back: the status, the columns (name and type identifier)
  and the rows, each row holding one text per column.
\<close>

record PGresult =
  PQresultStatus :: ExecStatusType
  columns :: "(string \<times> oid) list"
  tuples :: "string list list"

definition PQnfields :: "PGresult \<Rightarrow> nat" where
  "PQnfields res = length (columns res)"

definition PQfname :: "PGresult \<Rightarrow> nat \<Rightarrow> string" where
  "PQfname res i = fst (columns res ! i)"

definition PQftype :: "PGresult \<Rightarrow> nat \<Rightarrow> oid" where
  "PQftype res i = snd (columns res ! i)"

text \<open>
  \<^verbatim>\<open>PQgetvalue\<close> returns a pointer to the text of a field, and the null pointer
  (\<open>None\<close>) when the row or the column is out of range.
\<close>

definition PQgetvalue :: "PGresult \<Rightarrow> nat \<Rightarrow> nat \<Rightarrow> string option" where
  "PQgetvalue res tup_num field_num =
     (if tup_num < length (tuples res) \<and> field_num < length (tuples res ! tup_num)
      then Some (tuples res ! tup_num ! field_num) else None)"

subsection \<open>sd-bus: messages under construction\<close>

datatype scalar =
  Bool bool | Int16 "16 word" | Int32 "32 word" | Int64 "64 word" | Double c_double
  | Str string

text \<open>
  A message is the list of the writes that succeeded on it, oldest first.
  \<open>AppendBasic sig v\<close> records the type code the caller gave with the value the C
  variable held.
\<close>

datatype msg_op =
  OpenContainer char string | AppendString string | AppendBasic char scalar
  | CloseContainer

type_synonym sd_bus_message = "msg_op list"

subsection \<open>Environment, effects and handler state\<close>

text \<open>
  The environment of one request: the outcome of reading the string argument, what the
  database does with the connection parameters and the query, and the status each
  sd-bus call returns (\<open>bus_rc k\<close> for the \<open>k\<close>-th call of the handler).
\<close>

record env =
  read_rc :: int
  read_query :: string
  ping :: "(string \<times> string) list \<Rightarrow> int"
  connectdb :: "(string \<times> string) list \<Rightarrow> PGconn"
  exec :: "string \<Rightarrow> PGresult"
  exec_error :: "string \<Rightarrow> string"
  bus_rc :: "nat \<Rightarrow> int"

datatype effect =
  Stderr string
  | PQpingParams_call "(string \<times> string) list"
  | PQconnectdbParams_call "(string \<times> string) list"
  | PQexec_call string
  | PQclear_call
  | PQfinish_call
  | Reply_method_errorf string string
  | Reply_method_return_void
  | Reply_method_return_q "16 word"
  | Bus_send sd_bus_message

text \<open>
  The state a handler threads through: the \<^verbatim>\<open>context\<close> behind \<^verbatim>\<open>userdata\<close>, the
  effects so far, the number of sd-bus calls so far and the local \<^verbatim>\<open>reply\<close>.
\<close>

record hstate =
  ctx :: "context"
  effects :: "effect list"
  ncalls :: nat
  reply :: sd_bus_message

definition entry :: "context \<Rightarrow> hstate" where
  "entry c = \<lparr>ctx = c, effects = [], ncalls = 0, reply = []\<rparr>"

text \<open>How a handler stops: it returns a status, or it reads through a null pointer.\<close>

datatype exit = Return int | Segfault

datatype 'a may_fault = Fault | Done 'a

definition emit :: "effect \<Rightarrow> hstate \<Rightarrow> hstate" where
  "emit e s = s\<lparr>effects := effects s @ [e]\<rparr>"

definition fprintf_stderr :: "string \<Rightarrow> hstate \<Rightarrow> hstate" where
  "fprintf_stderr text = emit (Stderr text)"

text \<open>
  One sd-bus call: it takes the next status of the environment, and does its work only
  when the status is not negative.
\<close>

definition bus_call :: "env \<Rightarrow> (hstate \<Rightarrow> hstate) \<Rightarrow> hstate \<Rightarrow> int \<times> hstate" where
  "bus_call e work s =
     (let rc = bus_rc e (ncalls s); s' = s\<lparr>ncalls := Suc (ncalls s)\<rparr>
      in (rc, if rc < 0 then s' else work s'))"

definition write_op :: "msg_op \<Rightarrow> hstate \<Rightarrow> hstate" where
  "write_op w s = s\<lparr>reply := reply s @ [w]\<rparr>"

definition sd_bus_message_new_method_return :: "env \<Rightarrow> hstate \<Rightarrow> int \<times> hstate" where
  "sd_bus_message_new_method_return e = bus_call e (\<lambda>s. s\<lparr>reply := []\<rparr>)"

definition sd_bus_message_open_container ::
  "env \<Rightarrow> char \<Rightarrow> string \<Rightarrow> hstate \<Rightarrow> int \<times> hstate" where
  "sd_bus_message_open_container e t contents = bus_call e (write_op (OpenContainer t contents))"

definition sd_bus_message_close_container :: "env \<Rightarrow> hstate \<Rightarrow> int \<times> hstate" where
  "sd_bus_message_close_container e = bus_call e (write_op CloseContainer)"

definition sd_bus_message_append_s :: "env \<Rightarrow> string \<Rightarrow> hstate \<Rightarrow> int \<times> hstate" where
  "sd_bus_message_append_s e text = bus_call e (write_op (AppendString text))"

definition sd_bus_message_append_basic ::
  "env \<Rightarrow> char \<Rightarrow> scalar \<Rightarrow> hstate \<Rightarrow> int \<times> hstate" where
  "sd_bus_message_append_basic e sig v = bus_call e (write_op (AppendBasic sig v))"

definition sd_bus_send :: "env \<Rightarrow> hstate \<Rightarrow> int \<times> hstate" where
  "sd_bus_send e s =
     (let rc = bus_rc e (ncalls s)
      in (rc, emit (Bus_send (reply s)) (s\<lparr>ncalls := Suc (ncalls s)\<rparr>)))"

text \<open>
  \<^verbatim>\<open>instance_vtable\<close>: the two methods with the signatures of their input and of their
  result, and the two writable properties with their signatures.
\<close>

datatype vtable_entry =
  SD_BUS_METHOD string string string | SD_BUS_WRITABLE_PROPERTY string string

definition instance_vtable :: "vtable_entry list" where
  "instance_vtable =
     [SD_BUS_METHOD ''Ping'' [] ''q'',
      SD_BUS_METHOD ''Query'' ''s'' ''a{sv}'',
      SD_BUS_WRITABLE_PROPERTY ''Port'' ''q'',
      SD_BUS_WRITABLE_PROPERTY ''Host'' ''s'']"

fun method_result :: "vtable_entry list \<Rightarrow> string \<Rightarrow> string" where
  "method_result [] member = []"
| "method_result (SD_BUS_METHOD name sig res # vt) member =
     (if name = member then res else method_result vt member)"
| "method_result (SD_BUS_WRITABLE_PROPERTY name sig # vt) member = method_result vt member"

text \<open>
  sd-bus holds every reply to a method of a vtable to the result signature the vtable
  declares for that method: a method return with another signature is not sent, and the
  call that tries to send it returns \<^verbatim>\<open>-ENOMSG\<close>.
\<close>

definition enforced_reply_signature :: "string \<Rightarrow> string" where
  "enforced_reply_signature member = method_result instance_vtable member"

definition ENOMSG :: int where "ENOMSG = 42"

text \<open>
  \<^verbatim>\<open>sd_bus_reply_method_return(m, NULL)\<close>, for a call that expects a reply: a method
  return without content, whose signature is empty. It is sent, and recorded as an
  effect, only when no earlier step of sd-bus failed and the empty signature is the one
  declared for the method. (The replies of \<^verbatim>\<open>Ping\<close> and of the last line of
  \<^verbatim>\<open>Query\<close> carry the declared signatures \<^verbatim>\<open>q\<close> and \<^verbatim>\<open>a{sv}\<close>.)
\<close>

definition sd_bus_reply_method_return_void :: "env \<Rightarrow> string \<Rightarrow> hstate \<Rightarrow> int \<times> hstate" where
  "sd_bus_reply_method_return_void e enforced s =
     (let rc = bus_rc e (ncalls s); s' = s\<lparr>ncalls := Suc (ncalls s)\<rparr>
      in if rc < 0 then (rc, s')
         else if enforced \<noteq> [] then (- ENOMSG, s')
         else (rc, emit Reply_method_return_void s'))"

definition sd_bus_reply_method_return_q :: "env \<Rightarrow> int \<Rightarrow> hstate \<Rightarrow> int \<times> hstate" where
  "sd_bus_reply_method_return_q e v s =
     (let rc = bus_rc e (ncalls s)
      in (rc, emit (Reply_method_return_q (word_of_int v)) (s\<lparr>ncalls := Suc (ncalls s)\<rparr>)))"

definition SD_BUS_ERROR_INVALID_ARGS :: string where
  "SD_BUS_ERROR_INVALID_ARGS = ''org.freedesktop.DBus.Error.InvalidArgs''"

definition sd_bus_reply_method_errorf ::
  "env \<Rightarrow> string \<Rightarrow> string \<Rightarrow> hstate \<Rightarrow> int \<times> hstate" where
  "sd_bus_reply_method_errorf e name text s =
     (let rc = bus_rc e (ncalls s)
      in (rc, emit (Reply_method_errorf name text) (s\<lparr>ncalls := Suc (ncalls s)\<rparr>)))"

definition PQpingParams :: "env \<Rightarrow> (string \<times> string) list \<Rightarrow> hstate \<Rightarrow> int \<times> hstate" where
  "PQpingParams e vals s = (ping e vals, emit (PQpingParams_call vals) s)"

definition PQconnectdbParams ::
  "env \<Rightarrow> (string \<times> string) list \<Rightarrow> hstate \<Rightarrow> PGconn \<times> hstate" where
  "PQconnectdbParams e vals s = (connectdb e vals, emit (PQconnectdbParams_call vals) s)"

definition PQexec :: "env \<Rightarrow> string \<Rightarrow> hstate \<Rightarrow> PGresult \<times> hstate" where
  "PQexec e query s = (exec e query, emit (PQexec_call query) s)"

definition PQclear :: "hstate \<Rightarrow> hstate" where
  "PQclear = emit PQclear_call"

definition PQfinish :: "hstate \<Rightarrow> hstate" where
  "PQfinish = emit PQfinish_call"

subsection \<open>The value encoder\<close>

text \<open>
  \<^verbatim>\<open>sd_bus_message_append_pgsql_value\<close>: a \<^verbatim>\<open>switch\<close> on the type identifier (not
  on the type code \<open>sig\<close>, which is only passed on to sd-bus). \<open>value\<close> is a pointer:
  \<open>None\<close> is the null pointer, and the branches that read through it fault there.
  The text branch hands the pointer to sd-bus unread, and sd-bus writes a null string
  as the empty string. The casts to \<^verbatim>\<open>int16_t\<close> and \<^verbatim>\<open>int32_t\<close> keep the low bits.
\<close>

definition sd_bus_message_append_pgsql_value ::
  "env \<Rightarrow> char \<Rightarrow> oid \<Rightarrow> string option \<Rightarrow> hstate \<Rightarrow> (int \<times> hstate) may_fault" where
  "sd_bus_message_append_pgsql_value e sig oid val s =
     (if oid = BOOLOID then
        (case val of
           None \<Rightarrow> Fault
         | Some v \<Rightarrow>
             let b = (if deref v = CHR ''t'' then 1 else 0 :: int)
             in Done (sd_bus_message_append_basic e sig (Bool (b \<noteq> 0)) s))
      else if oid = INT2OID then
        (case val of
           None \<Rightarrow> Fault
         | Some v \<Rightarrow>
             let n = (word_of_int (strtol v) :: 16 word)
             in Done (sd_bus_message_append_basic e sig (Int16 n) s))
      else if oid = OIDOID \<or> oid = INT4OID then
        (case val of
           None \<Rightarrow> Fault
         | Some v \<Rightarrow>
             let i = (word_of_int (strtol v) :: 32 word)
             in Done (sd_bus_message_append_basic e sig (Int32 i) s))
      else if oid = INT8OID then
        (case val of
           None \<Rightarrow> Fault
         | Some v \<Rightarrow>
             let q = (word_of_int (strtoll v) :: 64 word)
             in Done (sd_bus_message_append_basic e sig (Int64 q) s))
      else if oid = FLOAT4OID \<or> oid = FLOAT8OID then
        (case val of
           None \<Rightarrow> Fault
         | Some v \<Rightarrow>
             let d = Strtod v
             in Done (sd_bus_message_append_basic e sig (Double d) s))
      else if oid = XMLOID \<or> oid = JSONOID \<or> oid = VARCHAROID \<or> oid = BPCHAROID
              \<or> oid = NAMEOID \<or> oid = TEXTOID then
        Done (sd_bus_message_append_basic e sig
                (Str (case val of None \<Rightarrow> [] | Some v \<Rightarrow> v)) s)
      else Done (- 1, s))"

subsection \<open>The Ping handler\<close>

definition PQPING_OK :: int where "PQPING_OK = 0"
definition PQPING_REJECT :: int where "PQPING_REJECT = 1"
definition PQPING_NO_RESPONSE :: int where "PQPING_NO_RESPONSE = 2"
definition PQPING_NO_ATTEMPT :: int where "PQPING_NO_ATTEMPT = 3"

definition newline :: string where
  "newline = [CHR 0x0A]"

text \<open>
  The arrays \<^verbatim>\<open>keys\<close> and \<^verbatim>\<open>vals\<close> both handlers build from the \<^verbatim>\<open>context\<close>
  (without the closing \<^verbatim>\<open>NULL\<close>); \<^verbatim>\<open>vals[1]\<close> is the local buffer \<^verbatim>\<open>port\<close>
  after \<^verbatim>\<open>sprintf(port, "%d", c->port)\<close>. libpq receives them as pairs.
\<close>

definition keys :: "string list" where
  "keys = [''host'', ''port'']"

definition vals :: "context \<Rightarrow> string list" where
  "vals c = [host c, sprintf_d (unat (port c))]"

definition conn_params :: "context \<Rightarrow> (string \<times> string) list" where
  "conn_params c = zip keys (vals c)"

definition method_ping :: "env \<Rightarrow> hstate \<Rightarrow> exit \<times> hstate" where
  "method_ping e s =
     (case PQpingParams e (conn_params (ctx s)) s of
        (rc, s1) \<Rightarrow>
          let s2 =
            (if rc = PQPING_OK then fprintf_stderr (''accepting connections'' @ newline) s1
             else if rc = PQPING_REJECT then fprintf_stderr (''rejecting connections'' @ newline) s1
             else if rc = PQPING_NO_RESPONSE then fprintf_stderr (''no response'' @ newline) s1
             else if rc = PQPING_NO_ATTEMPT then fprintf_stderr (''no attempt'' @ newline) s1
             else fprintf_stderr (''unknown'' @ newline) s1)
          in (case sd_bus_reply_method_return_q e rc s2 of (r, s3) \<Rightarrow> (Return r, s3)))"

subsection \<open>The Query handler\<close>

text \<open>The body of the \<^verbatim>\<open>for\<close> loop: one dictionary entry for column \<open>i\<close> of row 0.\<close>

definition append_field :: "env \<Rightarrow> PGresult \<Rightarrow> nat \<Rightarrow> hstate \<Rightarrow> (exit \<times> hstate) + hstate" where
  "append_field e res i s =
     (let oid = PQftype res i; sig = oid_to_signature oid
      in case sd_bus_message_open_container e (CHR ''e'') ''sv'' s of
        (rc, s1) \<Rightarrow>
          if rc < 0 then Inl (Return rc, s1)
          else (case sd_bus_message_append_s e (PQfname res i) s1 of
        (rc, s2) \<Rightarrow>
          if rc < 0 then Inl (Return rc, s2)
          else (case sd_bus_message_open_container e (CHR ''v'') [sig] s2 of
        (rc, s3) \<Rightarrow>
          if rc < 0 then Inl (Return rc, s3)
          else (case sd_bus_message_append_pgsql_value e sig oid (PQgetvalue res 0 i) s3 of
            Fault \<Rightarrow> Inl (Segfault, s3)
          | Done (rc, s4) \<Rightarrow>
          if rc < 0 then Inl (Return rc, s4)
          else (case sd_bus_message_close_container e s4 of
        (rc, s5) \<Rightarrow>
          if rc < 0 then Inl (Return rc, s5)
          else (case sd_bus_message_close_container e s5 of
        (rc, s6) \<Rightarrow>
          if rc < 0 then Inl (Return rc, s6)
          else Inr s6))))))"

text \<open>\<^verbatim>\<open>for (i = 0; i < nFields; i++)\<close>, from \<open>i\<close> on.\<close>

function append_fields ::
  "env \<Rightarrow> PGresult \<Rightarrow> nat \<Rightarrow> nat \<Rightarrow> hstate \<Rightarrow> (exit \<times> hstate) + hstate" where
  "append_fields e res nFields i s =
     (if i < nFields then
        (case append_field e res i s of
           Inl stop \<Rightarrow> Inl stop
         | Inr s' \<Rightarrow> append_fields e res nFields (Suc i) s')
      else Inr s)"
  by pat_completeness auto
termination
  by (relation "measure (\<lambda>(e, res, nFields, i, s). nFields - i)") auto

declare append_fields.simps [simp del]

text \<open>
  The label \<^verbatim>\<open>end\<close>: the reply without content, to a call of the method
  \<^verbatim>\<open>Query\<close>.
\<close>

definition end_label :: "env \<Rightarrow> hstate \<Rightarrow> exit \<times> hstate" where
  "end_label e s =
     (case sd_bus_reply_method_return_void e (enforced_reply_signature ''Query'') s of
        (rc, s') \<Rightarrow> (Return rc, s'))"

definition method_query :: "env \<Rightarrow> hstate \<Rightarrow> exit \<times> hstate" where
  "method_query e s =
     (if read_rc e < 0 then
        (case sd_bus_reply_method_errorf e SD_BUS_ERROR_INVALID_ARGS
                ''Expected interface parameter'' s of
           (rc, s') \<Rightarrow> (Return rc, s'))
      else
        let query = read_query e;
            s1 = fprintf_stderr
                   (''connecting to '' @ keys ! 0 @ '': '' @ vals (ctx s) ! 0 @ '', ''
                    @ keys ! 1 @ '': '' @ vals (ctx s) ! 1 @ newline) s
        in case PQconnectdbParams e (conn_params (ctx s)) s1 of
          (conn, s2) \<Rightarrow>
            if PQstatus conn \<noteq> CONNECTION_OK then
              end_label e
                (PQfinish
                  (fprintf_stderr (''Connection to database failed: '' @ PQerrorMessage conn) s2))
            else (case PQexec e query s2 of
          (res, s3) \<Rightarrow>
            if PQresultStatus res \<noteq> PGRES_TUPLES_OK then
              end_label e
                (PQfinish (PQclear
                  (fprintf_stderr (''query failed: '' @ exec_error e query) s3)))
            else
              let s4 = fprintf_stderr (''query succeed!'' @ newline) s3;
                  nFields = PQnfields res
              in (case sd_bus_message_new_method_return e s4 of
          (rc, s5) \<Rightarrow>
            if rc < 0 then (Return rc, s5)
            else (case sd_bus_message_open_container e (CHR ''a'') ''{sv}'' s5 of
          (rc, s6) \<Rightarrow>
            if rc < 0 then (Return rc, s6)
            else (case append_fields e res nFields 0 s6 of
              Inl stop \<Rightarrow> stop
            | Inr s7 \<Rightarrow>
            (case sd_bus_message_close_container e s7 of
          (rc, s8) \<Rightarrow>
            if rc < 0 then (Return rc, s8)
            else (case sd_bus_send e (PQfinish (PQclear s8)) of
          (rc, s9) \<Rightarrow> (Return rc, s9))))))))"

subsection \<open>Decimal texts, in the words of the specification\<close>

text \<open>
  A well-formed base-10 signed integer text: an optional sign and at least one digit,
  nothing else. Its value is read from the least significant digit upwards, unlike the
  left-to-right accumulation of \<open>strtol\<close>.
\<close>

definition wf_decimal :: "string \<Rightarrow> bool" where
  "wf_decimal text =
     (case text of
        [] \<Rightarrow> False
      | c # cs \<Rightarrow>
          if c = CHR ''-'' \<or> c = CHR ''+'' then cs \<noteq> [] \<and> list_all isdigit cs
          else list_all isdigit (c # cs))"

fun lsd_value :: "string \<Rightarrow> int" where
  "lsd_value [] = 0"
| "lsd_value (c # cs) = digit_value c + 10 * lsd_value cs"

definition decimal_value :: "string \<Rightarrow> int" where
  "decimal_value text =
     (case text of
        [] \<Rightarrow> 0
      | c # cs \<Rightarrow>
          if c = CHR ''-'' then - lsd_value (rev cs)
          else if c = CHR ''+'' then lsd_value (rev cs)
          else lsd_value (rev (c # cs)))"

definition integer_oids :: "oid list" where
  "integer_oids = [INT2OID, OIDOID, INT4OID, INT8OID]"

definition text_oids :: "oid list" where
  "text_oids = [XMLOID, JSONOID, VARCHAROID, BPCHAROID, NAMEOID, TEXTOID]"

subsection \<open>What a run shows to the outside\<close>

fun database_call :: "effect \<Rightarrow> bool" where
  "database_call (PQpingParams_call _) = True"
| "database_call (PQconnectdbParams_call _) = True"
| "database_call (PQexec_call _) = True"
| "database_call PQclear_call = True"
| "database_call PQfinish_call = True"
| "database_call _ = False"

fun connect_call :: "effect \<Rightarrow> bool" where
  "connect_call (PQconnectdbParams_call _) = True"
| "connect_call _ = False"

fun exec_call :: "effect \<Rightarrow> bool" where
  "exec_call (PQexec_call _) = True"
| "exec_call _ = False"

fun error_reply :: "effect \<Rightarrow> bool" where
  "error_reply (Reply_method_errorf _ _) = True"
| "error_reply _ = False"

fun reply_call :: "effect \<Rightarrow> bool" where
  "reply_call Reply_method_return_void = True"
| "reply_call (Bus_send _) = True"
| "reply_call _ = False"

text \<open>
  Connections and results still held at the end of a run: those obtained minus those
  given back with \<^verbatim>\<open>PQfinish\<close> and \<^verbatim>\<open>PQclear\<close>.
\<close>

definition open_connections :: "effect list \<Rightarrow> int" where
  "open_connections effs =
     int (length (filter connect_call effs)) - int (count_list effs PQfinish_call)"

definition open_results :: "effect list \<Rightarrow> int" where
  "open_results effs =
     int (length (filter exec_call effs)) - int (count_list effs PQclear_call)"

text \<open>
  An error reaches the caller when the handler issues an error reply, and also when it
  returns a negative status: sd-bus answers the call with an error made from that status.
\<close>

definition protocol_error :: "exit \<times> hstate \<Rightarrow> bool" where
  "protocol_error r =
     (list_ex error_reply (effects (snd r))
      \<or> (case fst r of Return rc \<Rightarrow> rc < 0 | Segfault \<Rightarrow> False))"

text \<open>The reply \<^verbatim>\<open>a{sv}\<close> with no entry.\<close>

definition empty_mapping :: sd_bus_message where
  "empty_mapping = [OpenContainer (CHR ''a'') ''{sv}'', CloseContainer]"

subsection \<open>Concrete requests\<close>

text \<open>The \<^verbatim>\<open>context\<close> that \<^verbatim>\<open>main\<close> sets up.\<close>

definition main_context :: "context" where
  "main_context = \<lparr>host = ''/tmp'', port = 15433\<rparr>"

text \<open>
  A request whose argument is read, on a server that accepts the connection and answers
  the query with \<open>res\<close>, while every sd-bus call succeeds.
\<close>

definition healthy :: "string \<Rightarrow> PGresult \<Rightarrow> env" where
  "healthy q res =
     \<lparr>read_rc = 1, read_query = q, ping = (\<lambda>_. 0),
      connectdb = (\<lambda>_. \<lparr>PQstatus = CONNECTION_OK, PQerrorMessage = []\<rparr>),
      exec = (\<lambda>_. res), exec_error = (\<lambda>_. []), bus_rc = (\<lambda>_. 0)\<rparr>"

text \<open>\<^verbatim>\<open>SELECT 1.5::numeric AS x\<close>: one row, one column of a type the program does not list.\<close>

definition numeric_result :: PGresult where
  "numeric_result =
     \<lparr>PQresultStatus = PGRES_TUPLES_OK, columns = [(''x'', NUMERICOID)], tuples = [[''1.5'']]\<rparr>"

definition numeric_query :: env where
  "numeric_query = healthy ''SELECT 1.5::numeric AS x'' numeric_result"

text \<open>\<^verbatim>\<open>SELECT 1 AS a WHERE false\<close>: one integer column, no row.\<close>

definition norow_result :: PGresult where
  "norow_result =
     \<lparr>PQresultStatus = PGRES_TUPLES_OK, columns = [(''a'', INT4OID)], tuples = []\<rparr>"

definition norow_query :: env where
  "norow_query = healthy ''SELECT 1 AS a WHERE false'' norow_result"

text \<open>\<^verbatim>\<open>SELECT 10::int2 as blah\<close>, the example of the source's header comment.\<close>

definition int2_result :: PGresult where
  "int2_result =
     \<lparr>PQresultStatus = PGRES_TUPLES_OK, columns = [(''blah'', INT2OID)], tuples = [[''10'']]\<rparr>"

text \<open>\<^verbatim>\<open>SELECT 1.5::text AS x\<close>: the same text in a column of a listed type.\<close>

definition text_result :: PGresult where
  "text_result =
     \<lparr>PQresultStatus = PGRES_TUPLES_OK, columns = [(''x'', TEXTOID)], tuples = [[''1.5'']]\<rparr>"

definition text_query :: env where
  "text_query = healthy ''SELECT 1.5::text AS x'' text_result"

text \<open>A server that refuses the connection.\<close>

definition server_down :: env where
  "server_down =
     (healthy ''SELECT 10::int2 as blah'' int2_result)
       \<lparr>connectdb := (\<lambda>_. \<lparr>PQstatus = CONNECTION_BAD, PQerrorMessage = ''no server''\<rparr>)\<rparr>"

text \<open>A server that accepts the connection and rejects the query.\<close>

definition query_rejected :: env where
  "query_rejected =
     (healthy ''SELEC 1'' \<lparr>PQresultStatus = PGRES_FATAL_ERROR, columns = [], tuples = []\<rparr>)
       \<lparr>exec_error := (\<lambda>_. ''syntax error'')\<rparr>"

text \<open>A call without its string argument: the read fails (\<^verbatim>\<open>-ENXIO\<close>).\<close>

definition no_argument :: env where
  "no_argument = (healthy [] int2_result)\<lparr>read_rc := - 6\<rparr>"

section \<open>Verification\<close>

subsection \<open>Unfolding sets\<close>

lemmas oid_defs =
  BOOLOID_def NAMEOID_def INT8OID_def INT2OID_def INT4OID_def TEXTOID_def OIDOID_def
  JSONOID_def XMLOID_def FLOAT4OID_def FLOAT8OID_def BPCHAROID_def VARCHAROID_def
  NUMERICOID_def

lemmas sd_bus_type_defs =
  SD_BUS_TYPE_BOOLEAN_def SD_BUS_TYPE_INT16_def SD_BUS_TYPE_INT32_def
  SD_BUS_TYPE_INT64_def SD_BUS_TYPE_DOUBLE_def SD_BUS_TYPE_STRING_def

lemmas handler_defs =
  method_query_def method_ping_def end_label_def entry_def Let_def keys_def vals_def
  conn_params_def newline_def fprintf_stderr_def emit_def PQpingParams_def
  PQconnectdbParams_def PQexec_def PQclear_def PQfinish_def PQnfields_def PQftype_def
  PQfname_def PQgetvalue_def sd_bus_message_new_method_return_def
  sd_bus_message_open_container_def sd_bus_message_close_container_def
  sd_bus_message_append_s_def sd_bus_message_append_basic_def sd_bus_send_def
  sd_bus_reply_method_return_void_def sd_bus_reply_method_return_q_def
  sd_bus_reply_method_errorf_def bus_call_def write_op_def append_field_def
  enforced_reply_signature_def instance_vtable_def ENOMSG_def

subsection \<open>The type mapper\<close>

text \<open>
  C5. \<open>oid_to_signature\<close> is total and agrees with the mapping table of section 4.1
  on every identifier: it returns the table's type code where the table has a row, and
  the string code for every identifier without a row.
\<close>

theorem oid_to_signature_table: "oid_to_signature oid = mapType_spec oid"
  by (simp add: oid_to_signature_def mapType_spec_def mapType_table_def oid_defs
        sd_bus_type_defs)

subsection \<open>The value encoder\<close>

text \<open>
  C7. For a boolean column the encoder does one thing: it appends a boolean that is true
  exactly when the text is not empty and its first character is \<open>t\<close>. The empty text
  gives false. The encoder has no failure of its own on this branch: its status is the
  status of the sd-bus append.
\<close>

theorem boolean_encoding:
  "sd_bus_message_append_pgsql_value e sig BOOLOID (Some str) s =
     Done (sd_bus_message_append_basic e sig (Bool (str \<noteq> [] \<and> hd str = CHR ''t'')) s)
   \<and> sd_bus_message_append_pgsql_value e sig BOOLOID (Some []) s =
     Done (sd_bus_message_append_basic e sig (Bool False) s)"
  by (cases str) (simp_all add: sd_bus_message_append_pgsql_value_def deref_def)

text \<open>
  For each of the six listed text-like column types, an append that sd-bus accepts
  writes the text itself at the end of the reply, with nothing changed. (sd-bus may
  refuse the append, as it does for a text that is not valid UTF-8: that is a negative
  status of the environment, and then nothing is written.)
\<close>

lemma listed_text_appended:
  "oid \<in> set text_oids \<Longrightarrow> 0 \<le> bus_rc e (ncalls s) \<Longrightarrow>
   sd_bus_message_append_pgsql_value e sig oid (Some str) s =
     Done (bus_rc e (ncalls s),
           s\<lparr>ncalls := Suc (ncalls s), reply := reply s @ [AppendBasic sig (Str str)]\<rparr>)"
  by (auto simp add: sd_bus_message_append_pgsql_value_def sd_bus_message_append_basic_def
        bus_call_def write_op_def Let_def text_oids_def oid_defs)

subsection \<open>Decimal texts and \<open>strtol\<close>\<close>

lemma sint16: "- (2 ^ 15) \<le> x \<Longrightarrow> x < 2 ^ 15 \<Longrightarrow> sint (word_of_int x :: 16 word) = x"
  by (simp add: int_word_sint)

lemma sint32: "- (2 ^ 31) \<le> x \<Longrightarrow> x < 2 ^ 31 \<Longrightarrow> sint (word_of_int x :: 32 word) = x"
  by (simp add: int_word_sint)

lemma sint64: "- (2 ^ 63) \<le> x \<Longrightarrow> x < 2 ^ 63 \<Longrightarrow> sint (word_of_int x :: 64 word) = x"
  by (simp add: int_word_sint)

lemma lsd_value_snoc: "lsd_value (xs @ [c]) = lsd_value xs + 10 ^ length xs * digit_value c"
  by (induction xs) (simp_all add: algebra_simps)

text \<open>The accumulator of \<open>strtol\<close> computes the positional value of a run of digits.\<close>

lemma accumulate_digits_value:
  "list_all isdigit ds \<Longrightarrow>
   accumulate_digits acc ds = acc * 10 ^ length ds + lsd_value (rev ds)"
proof (induction ds arbitrary: acc)
  case Nil
  then show ?case by simp
next
  case (Cons d ds)
  then show ?case by (simp add: lsd_value_snoc algebra_simps)
qed

lemma accumulate_digits_stop:
  "list_all isdigit ds \<Longrightarrow> \<not> isdigit c \<Longrightarrow>
   accumulate_digits acc (ds @ c # rest) = accumulate_digits acc ds"
  by (induction ds arbitrary: acc) simp_all

lemma sign_or_digit_not_space:
  "isdigit c \<or> c = CHR ''-'' \<or> c = CHR ''+'' \<Longrightarrow> \<not> isspace c"
  by (auto simp add: isdigit_def isspace_def)

lemma sign_not_digit: "\<not> isdigit (CHR ''-'')" "\<not> isdigit (CHR ''+'')"
  by (simp_all add: isdigit_def)

lemma wf_decimal_no_space: "wf_decimal str \<Longrightarrow> dropWhile isspace (str @ ys) = str @ ys"
  by (cases str) (auto simp add: wf_decimal_def sign_or_digit_not_space split: if_splits)

lemma wf_decimal_signed_digits: "wf_decimal str \<Longrightarrow> signed_digits str = decimal_value str"
  by (cases str)
     (auto simp add: wf_decimal_def signed_digits_def decimal_value_def sign_not_digit
        accumulate_digits_value lsd_value_snoc split: if_splits)

lemma wf_decimal_signed_digits_prefix:
  "wf_decimal str \<Longrightarrow> \<not> isdigit c \<Longrightarrow> signed_digits (str @ c # rest) = signed_digits str"
  by (cases str)
     (auto simp add: wf_decimal_def signed_digits_def sign_not_digit
        accumulate_digits_stop accumulate_digits_stop [of "d # ds" for d ds, simplified]
        split: if_splits)

lemma strtol_wf:
  "wf_decimal str \<Longrightarrow> LONG_MIN \<le> decimal_value str \<Longrightarrow> decimal_value str \<le> LONG_MAX \<Longrightarrow>
   strtol str = decimal_value str"
  using wf_decimal_no_space [of str "[]"]
  by (simp add: strtol_def wf_decimal_signed_digits)

lemma strtol_prefix:
  "wf_decimal str \<Longrightarrow> \<not> isdigit c \<Longrightarrow> strtol (str @ c # rest) = strtol str"
  using wf_decimal_no_space [of str "[]"] wf_decimal_no_space [of str "c # rest"]
  by (simp add: strtol_def wf_decimal_signed_digits_prefix)

text \<open>
  C8. For a well-formed decimal text whose value fits the width of the column type
  (16 bits for \<^verbatim>\<open>INT2OID\<close>, 32 bits for \<^verbatim>\<open>INT4OID\<close> and \<^verbatim>\<open>OIDOID\<close>, 64 bits for
  \<^verbatim>\<open>INT8OID\<close>) the encoder appends the integer whose signed value is the value of the
  text. When such a text is followed by a character that is not a digit and by anything
  else, the encoder does exactly what it does on the text alone, and what it does is an
  append, not a failure of its own.
\<close>

theorem integer_encoding_round_trip:
  assumes "wf_decimal str"
  shows
    "(- (2 ^ 15) \<le> decimal_value str \<and> decimal_value str < 2 ^ 15 \<longrightarrow>
        sd_bus_message_append_pgsql_value e sig INT2OID (Some str) s =
          Done (sd_bus_message_append_basic e sig (Int16 (word_of_int (decimal_value str))) s)
        \<and> sint (word_of_int (decimal_value str) :: 16 word) = decimal_value str)
     \<and> (- (2 ^ 31) \<le> decimal_value str \<and> decimal_value str < 2 ^ 31
        \<and> (oid32 = INT4OID \<or> oid32 = OIDOID) \<longrightarrow>
        sd_bus_message_append_pgsql_value e sig oid32 (Some str) s =
          Done (sd_bus_message_append_basic e sig (Int32 (word_of_int (decimal_value str))) s)
        \<and> sint (word_of_int (decimal_value str) :: 32 word) = decimal_value str)
     \<and> (- (2 ^ 63) \<le> decimal_value str \<and> decimal_value str < 2 ^ 63 \<longrightarrow>
        sd_bus_message_append_pgsql_value e sig INT8OID (Some str) s =
          Done (sd_bus_message_append_basic e sig (Int64 (word_of_int (decimal_value str))) s)
        \<and> sint (word_of_int (decimal_value str) :: 64 word) = decimal_value str)
     \<and> (oid \<in> set integer_oids \<and> \<not> isdigit c \<longrightarrow>
        sd_bus_message_append_pgsql_value e sig oid (Some (str @ c # rest)) s =
          sd_bus_message_append_pgsql_value e sig oid (Some str) s
        \<and> (\<exists>v. sd_bus_message_append_pgsql_value e sig oid (Some str) s =
              Done (sd_bus_message_append_basic e sig v s)))"
proof -
  have w16: "- (2 ^ 15) \<le> decimal_value str \<and> decimal_value str < 2 ^ 15 \<longrightarrow>
      strtol str = decimal_value str"
    using assms by (auto intro!: strtol_wf simp add: LONG_MIN_def LONG_MAX_def)
  have w32: "- (2 ^ 31) \<le> decimal_value str \<and> decimal_value str < 2 ^ 31 \<longrightarrow>
      strtol str = decimal_value str"
    using assms by (auto intro!: strtol_wf simp add: LONG_MIN_def LONG_MAX_def)
  have w64: "- (2 ^ 63) \<le> decimal_value str \<and> decimal_value str < 2 ^ 63 \<longrightarrow>
      strtol str = decimal_value str"
    using assms by (auto intro!: strtol_wf simp add: LONG_MIN_def LONG_MAX_def)
  have p: "\<not> isdigit c \<longrightarrow> strtol (str @ c # rest) = strtol str"
    using assms by (simp add: strtol_prefix)
  show ?thesis
  proof (intro conjI)
    show "- (2 ^ 15) \<le> decimal_value str \<and> decimal_value str < 2 ^ 15 \<longrightarrow>
        sd_bus_message_append_pgsql_value e sig INT2OID (Some str) s =
          Done (sd_bus_message_append_basic e sig (Int16 (word_of_int (decimal_value str))) s)
        \<and> sint (word_of_int (decimal_value str) :: 16 word) = decimal_value str"
      using w16 by (simp add: sd_bus_message_append_pgsql_value_def oid_defs sint16)
    show "- (2 ^ 31) \<le> decimal_value str \<and> decimal_value str < 2 ^ 31
        \<and> (oid32 = INT4OID \<or> oid32 = OIDOID) \<longrightarrow>
        sd_bus_message_append_pgsql_value e sig oid32 (Some str) s =
          Done (sd_bus_message_append_basic e sig (Int32 (word_of_int (decimal_value str))) s)
        \<and> sint (word_of_int (decimal_value str) :: 32 word) = decimal_value str"
      using w32 by (auto simp add: sd_bus_message_append_pgsql_value_def oid_defs sint32)
    show "- (2 ^ 63) \<le> decimal_value str \<and> decimal_value str < 2 ^ 63 \<longrightarrow>
        sd_bus_message_append_pgsql_value e sig INT8OID (Some str) s =
          Done (sd_bus_message_append_basic e sig (Int64 (word_of_int (decimal_value str))) s)
        \<and> sint (word_of_int (decimal_value str) :: 64 word) = decimal_value str"
      using w64 by (simp add: sd_bus_message_append_pgsql_value_def strtoll_def oid_defs sint64)
    show "oid \<in> set integer_oids \<and> \<not> isdigit c \<longrightarrow>
        sd_bus_message_append_pgsql_value e sig oid (Some (str @ c # rest)) s =
          sd_bus_message_append_pgsql_value e sig oid (Some str) s
        \<and> (\<exists>v. sd_bus_message_append_pgsql_value e sig oid (Some str) s =
              Done (sd_bus_message_append_basic e sig v s))"
      using p
      by (auto simp add: sd_bus_message_append_pgsql_value_def strtoll_def integer_oids_def
            oid_defs)
  qed
qed

theorem integer_encoding_round_trip_witness:
  "wf_decimal ''-123'' \<and> decimal_value ''-123'' = - 123
   \<and> sd_bus_message_append_pgsql_value (healthy [] int2_result) (CHR ''n'') INT2OID
        (Some ''-123'') (entry main_context) =
       Done (sd_bus_message_append_basic (healthy [] int2_result) (CHR ''n'') (Int16 (- 123))
         (entry main_context))
   \<and> sint (- 123 :: 16 word) = - 123
   \<and> sd_bus_message_append_pgsql_value (healthy [] int2_result) (CHR ''i'') OIDOID
        (Some ''-123'') (entry main_context) =
       Done (sd_bus_message_append_basic (healthy [] int2_result) (CHR ''i'') (Int32 (- 123))
         (entry main_context))
   \<and> sint (- 123 :: 32 word) = - 123
   \<and> sd_bus_message_append_pgsql_value (healthy [] int2_result) (CHR ''x'') INT8OID
        (Some ''-123'') (entry main_context) =
       Done (sd_bus_message_append_basic (healthy [] int2_result) (CHR ''x'') (Int64 (- 123))
         (entry main_context))
   \<and> sint (- 123 :: 64 word) = - 123
   \<and> sd_bus_message_append_pgsql_value (healthy [] int2_result) (CHR ''n'') INT2OID
        (Some ''-123abc'') (entry main_context) =
       sd_bus_message_append_pgsql_value (healthy [] int2_result) (CHR ''n'') INT2OID
        (Some ''-123'') (entry main_context)"
proof -
  have wf: "wf_decimal ''-123''"
    by (simp add: wf_decimal_def isdigit_def)
  have v: "decimal_value ''-123'' = - 123"
    by (simp add: decimal_value_def digit_value_def)
  have d: "\<not> isdigit (CHR ''a'')"
    by (simp add: isdigit_def)
  have o: "INT2OID \<in> set integer_oids"
    by (simp add: integer_oids_def)
  show ?thesis
    using integer_encoding_round_trip
      [OF wf, of "healthy [] int2_result" "CHR ''n''" "entry main_context" OIDOID INT2OID
         "CHR ''a''" "''bc''"]
      integer_encoding_round_trip
      [OF wf, of "healthy [] int2_result" "CHR ''i''" "entry main_context" OIDOID INT2OID
         "CHR ''a''" "''bc''"]
      integer_encoding_round_trip
      [OF wf, of "healthy [] int2_result" "CHR ''x''" "entry main_context" OIDOID INT2OID
         "CHR ''a''" "''bc''"]
      wf v d o
    by simp
qed

subsection \<open>Concrete runs of the Query handler\<close>

lemma port_text: "sprintf_d 15433 = ''15433''"
  by (simp add: sprintf_d.simps digit_char_def)

lemma numeric_run:
  "method_query numeric_query (entry main_context) =
     (Return (- 1),
      \<lparr>ctx = main_context,
       effects =
         [Stderr (''connecting to host: /tmp, port: 15433'' @ newline),
          PQconnectdbParams_call [(''host'', ''/tmp''), (''port'', ''15433'')],
          PQexec_call ''SELECT 1.5::numeric AS x'',
          Stderr (''query succeed!'' @ newline)],
       ncalls = 5,
       reply =
         [OpenContainer (CHR ''a'') ''{sv}'', OpenContainer (CHR ''e'') ''sv'',
          AppendString ''x'', OpenContainer (CHR ''v'') ''s'']\<rparr>)"
  by (simp add: handler_defs numeric_query_def healthy_def numeric_result_def port_text
        append_fields.simps sd_bus_message_append_pgsql_value_def oid_to_signature_def oid_defs
        main_context_def)

lemma norow_run:
  "method_query norow_query (entry main_context) =
     (Segfault,
      \<lparr>ctx = main_context,
       effects =
         [Stderr (''connecting to host: /tmp, port: 15433'' @ newline),
          PQconnectdbParams_call [(''host'', ''/tmp''), (''port'', ''15433'')],
          PQexec_call ''SELECT 1 AS a WHERE false'',
          Stderr (''query succeed!'' @ newline)],
       ncalls = 5,
       reply =
         [OpenContainer (CHR ''a'') ''{sv}'', OpenContainer (CHR ''e'') ''sv'',
          AppendString ''a'', OpenContainer (CHR ''v'') ''i'']\<rparr>)"
  by (simp add: handler_defs norow_query_def healthy_def norow_result_def port_text
        append_fields.simps sd_bus_message_append_pgsql_value_def oid_to_signature_def oid_defs
        main_context_def)

lemma text_run:
  "method_query text_query (entry main_context) =
     (Return 0,
      \<lparr>ctx = main_context,
       effects =
         [Stderr (''connecting to host: /tmp, port: 15433'' @ newline),
          PQconnectdbParams_call [(''host'', ''/tmp''), (''port'', ''15433'')],
          PQexec_call ''SELECT 1.5::text AS x'',
          Stderr (''query succeed!'' @ newline),
          PQclear_call,
          PQfinish_call,
          Bus_send
            [OpenContainer (CHR ''a'') ''{sv}'', OpenContainer (CHR ''e'') ''sv'',
             AppendString ''x'', OpenContainer (CHR ''v'') ''s'',
             AppendBasic (CHR ''s'') (Str ''1.5''), CloseContainer, CloseContainer,
             CloseContainer]],
       ncalls = 10,
       reply =
         [OpenContainer (CHR ''a'') ''{sv}'', OpenContainer (CHR ''e'') ''sv'',
          AppendString ''x'', OpenContainer (CHR ''v'') ''s'',
          AppendBasic (CHR ''s'') (Str ''1.5''), CloseContainer, CloseContainer,
          CloseContainer]\<rparr>)"
  by (simp add: handler_defs text_query_def healthy_def text_result_def port_text
        append_fields.simps sd_bus_message_append_pgsql_value_def oid_to_signature_def oid_defs
        main_context_def)

lemma server_down_run:
  "method_query server_down (entry main_context) =
     (Return (- ENOMSG),
      \<lparr>ctx = main_context,
       effects =
         [Stderr (''connecting to host: /tmp, port: 15433'' @ newline),
          PQconnectdbParams_call [(''host'', ''/tmp''), (''port'', ''15433'')],
          Stderr ''Connection to database failed: no server'',
          PQfinish_call],
       ncalls = 1,
       reply = []\<rparr>)"
  by (simp add: handler_defs server_down_def healthy_def int2_result_def port_text
        main_context_def)

lemma query_rejected_run:
  "method_query query_rejected (entry main_context) =
     (Return (- ENOMSG),
      \<lparr>ctx = main_context,
       effects =
         [Stderr (''connecting to host: /tmp, port: 15433'' @ newline),
          PQconnectdbParams_call [(''host'', ''/tmp''), (''port'', ''15433'')],
          PQexec_call ''SELEC 1'',
          Stderr ''query failed: syntax error'',
          PQclear_call,
          PQfinish_call],
       ncalls = 1,
       reply = []\<rparr>)"
  by (simp add: handler_defs query_rejected_def healthy_def port_text main_context_def)

text \<open>
  The example of the source's header comment, on a healthy server: the reply is the
  one-entry mapping from \<open>blah\<close> to the 16-bit integer 10, and both resources are
  given back before it is sent.
\<close>

lemma int2_run:
  "method_query (healthy ''SELECT 10::int2 as blah'' int2_result) (entry main_context) =
     (Return 0,
      \<lparr>ctx = main_context,
       effects =
         [Stderr (''connecting to host: /tmp, port: 15433'' @ newline),
          PQconnectdbParams_call [(''host'', ''/tmp''), (''port'', ''15433'')],
          PQexec_call ''SELECT 10::int2 as blah'',
          Stderr (''query succeed!'' @ newline),
          PQclear_call,
          PQfinish_call,
          Bus_send
            [OpenContainer (CHR ''a'') ''{sv}'', OpenContainer (CHR ''e'') ''sv'',
             AppendString ''blah'', OpenContainer (CHR ''v'') ''n'',
             AppendBasic (CHR ''n'') (Int16 10), CloseContainer, CloseContainer,
             CloseContainer]],
       ncalls = 10,
       reply =
         [OpenContainer (CHR ''a'') ''{sv}'', OpenContainer (CHR ''e'') ''sv'',
          AppendString ''blah'', OpenContainer (CHR ''v'') ''n'',
          AppendBasic (CHR ''n'') (Int16 10), CloseContainer, CloseContainer,
          CloseContainer]\<rparr>)"
  by (simp add: handler_defs healthy_def int2_result_def port_text
        append_fields.simps sd_bus_message_append_pgsql_value_def oid_to_signature_def oid_defs
        main_context_def strtol_def signed_digits_def isspace_def isdigit_def digit_value_def
        LONG_MAX_def LONG_MIN_def)

text \<open>
  C1. The encoder does reach its failure branch. For a \<^verbatim>\<open>numeric\<close> column the
  mapper answers the string code, and the encoder, which switches on the type
  identifier and not on that code, returns \<open>-1\<close> with the message untouched; the
  Query handler run on such a result returns \<open>-1\<close>.
\<close>

theorem unsupported_type_reached:
  "oid_to_signature NUMERICOID = SD_BUS_TYPE_STRING
   \<and> sd_bus_message_append_pgsql_value numeric_query (oid_to_signature NUMERICOID) NUMERICOID
        (Some ''1.5'') (entry main_context) = Done (- 1, entry main_context)
   \<and> fst (method_query numeric_query (entry main_context)) = Return (- 1)"
  by (simp add: numeric_run)
     (simp add: sd_bus_message_append_pgsql_value_def oid_to_signature_def oid_defs
        sd_bus_type_defs)

text \<open>
  C2. The connection is not given back on every exit. On the same \<^verbatim>\<open>numeric\<close>
  result the argument was read and the connection reached \<^verbatim>\<open>CONNECTION_OK\<close>, yet the
  handler returns \<open>-1\<close> from inside the loop holding one connection and one result:
  neither \<^verbatim>\<open>PQfinish\<close> nor \<^verbatim>\<open>PQclear\<close> was called. (The lemma
  \<open>open_handles_by_exit\<close> below gives the general picture.)
\<close>

theorem early_return_leaks_connection:
  "0 \<le> read_rc numeric_query
   \<and> PQstatus (connectdb numeric_query (conn_params main_context)) = CONNECTION_OK
   \<and> fst (method_query numeric_query (entry main_context)) = Return (- 1)
   \<and> open_connections (effects (snd (method_query numeric_query (entry main_context)))) = 1
   \<and> open_results (effects (snd (method_query numeric_query (entry main_context)))) = 1"
  by (simp add: numeric_run open_connections_def open_results_def)
     (simp add: numeric_query_def healthy_def)

text \<open>
  C4. A result with the tuples-available status and no row does not give the empty
  mapping. For \<^verbatim>\<open>SELECT 1 AS a WHERE false\<close> the loop still runs once for the one
  column, \<^verbatim>\<open>PQgetvalue\<close> for row 0 is the null pointer, and \<^verbatim>\<open>strtol\<close> reads through
  it: the handler stops there and no reply is sent. (By \<open>sent_mapping_has_entries\<close>
  below, no result with a column ever yields the empty mapping.)
\<close>

theorem zero_rows_not_empty_mapping:
  "PQresultStatus (exec norow_query (read_query norow_query)) = PGRES_TUPLES_OK
   \<and> tuples (exec norow_query (read_query norow_query)) = []
   \<and> PQgetvalue (exec norow_query (read_query norow_query)) 0 0 = None
   \<and> fst (method_query norow_query (entry main_context)) = Segfault
   \<and> Bus_send empty_mapping \<notin> set (effects (snd (method_query norow_query (entry main_context))))"
  by (simp add: norow_run)
     (simp add: norow_query_def healthy_def norow_result_def PQgetvalue_def)

text \<open>
  C9. A text whose wire tag is string does not always reach the reply. The mapper gives
  the string tag to the \<^verbatim>\<open>numeric\<close> column, the dispatcher opens a variant of
  signature \<^verbatim>\<open>s\<close> for it, and the encoder returns \<open>-1\<close> and leaves the message as
  it was: the text \<^verbatim>\<open>1.5\<close> is never written and no reply is sent. The same text in
  a \<^verbatim>\<open>text\<close> column is written unchanged and sent.
\<close>

theorem string_tagged_text_dropped:
  "oid_to_signature NUMERICOID = SD_BUS_TYPE_STRING
   \<and> sd_bus_message_append_pgsql_value numeric_query SD_BUS_TYPE_STRING NUMERICOID
        (Some ''1.5'') (entry main_context) = Done (- 1, entry main_context)
   \<and> fst (method_query numeric_query (entry main_context)) = Return (- 1)
   \<and> reply (snd (method_query numeric_query (entry main_context))) =
        [OpenContainer (CHR ''a'') ''{sv}'', OpenContainer (CHR ''e'') ''sv'',
         AppendString ''x'', OpenContainer (CHR ''v'') ''s'']
   \<and> \<not> list_ex reply_call (effects (snd (method_query numeric_query (entry main_context))))
   \<and> oid_to_signature TEXTOID = SD_BUS_TYPE_STRING
   \<and> Bus_send
        [OpenContainer (CHR ''a'') ''{sv}'', OpenContainer (CHR ''e'') ''sv'',
         AppendString ''x'', OpenContainer (CHR ''v'') ''s'',
         AppendBasic (CHR ''s'') (Str ''1.5''), CloseContainer, CloseContainer,
         CloseContainer]
       \<in> set (effects (snd (method_query text_query (entry main_context))))"
  by (simp add: numeric_run text_run)
     (simp add: sd_bus_message_append_pgsql_value_def oid_to_signature_def oid_defs
        sd_bus_type_defs)

subsection \<open>What the loop leaves alone\<close>

lemma bus_call_frame:
  assumes "bus_call e work s = (rc, s')"
    and "\<And>x. ctx (work x) = ctx x \<and> effects (work x) = effects x"
  shows "ctx s' = ctx s \<and> effects s' = effects s"
  using assms by (auto simp add: bus_call_def Let_def split: if_splits)

lemma write_op_frame: "ctx (write_op w x) = ctx x \<and> effects (write_op w x) = effects x"
  by (simp add: write_op_def)

lemma new_method_return_frame:
  "sd_bus_message_new_method_return e s = (rc, s') \<Longrightarrow> ctx s' = ctx s \<and> effects s' = effects s"
  unfolding sd_bus_message_new_method_return_def by (erule bus_call_frame) simp

lemma open_container_frame:
  "sd_bus_message_open_container e t c s = (rc, s') \<Longrightarrow> ctx s' = ctx s \<and> effects s' = effects s"
  unfolding sd_bus_message_open_container_def by (erule bus_call_frame) (rule write_op_frame)

lemma close_container_frame:
  "sd_bus_message_close_container e s = (rc, s') \<Longrightarrow> ctx s' = ctx s \<and> effects s' = effects s"
  unfolding sd_bus_message_close_container_def by (erule bus_call_frame) (rule write_op_frame)

lemma append_s_frame:
  "sd_bus_message_append_s e str s = (rc, s') \<Longrightarrow> ctx s' = ctx s \<and> effects s' = effects s"
  unfolding sd_bus_message_append_s_def by (erule bus_call_frame) (rule write_op_frame)

lemma append_basic_frame:
  "sd_bus_message_append_basic e sig v s = (rc, s') \<Longrightarrow> ctx s' = ctx s \<and> effects s' = effects s"
  unfolding sd_bus_message_append_basic_def by (erule bus_call_frame) (rule write_op_frame)

lemma append_pgsql_value_frame:
  "sd_bus_message_append_pgsql_value e sig oid val s = Done (rc, s') \<Longrightarrow>
   ctx s' = ctx s \<and> effects s' = effects s"
  by (auto simp add: sd_bus_message_append_pgsql_value_def Let_def
        split: if_splits option.splits dest: append_basic_frame)

lemma append_field_frame:
  "append_field e res i s = Inl (x, s') \<Longrightarrow> ctx s' = ctx s \<and> effects s' = effects s"
  "append_field e res i s = Inr s' \<Longrightarrow> ctx s' = ctx s \<and> effects s' = effects s"
  by (auto simp add: append_field_def Let_def
        split: prod.splits if_splits may_fault.splits
        dest!: open_container_frame close_container_frame append_s_frame append_pgsql_value_frame)

text \<open>By computation induction on the loop: however it ends, it has not touched the
  \<^verbatim>\<open>context\<close> and has had no effect outside the reply under construction.\<close>

lemma append_fields_frame:
  "(append_fields e res n i s = Inl (x, s') \<longrightarrow> ctx s' = ctx s \<and> effects s' = effects s)
   \<and> (append_fields e res n i s = Inr s' \<longrightarrow> ctx s' = ctx s \<and> effects s' = effects s)"
proof (induction e res n i s rule: append_fields.induct)
  case (1 e res nFields i s)
  show ?case
  proof (cases "i < nFields")
    case False
    then show ?thesis by (simp add: append_fields.simps [of e res nFields i s])
  next
    case True
    show ?thesis
    proof (cases "append_field e res i s")
      case (Inl stop)
      with True show ?thesis
        using append_field_frame(1) [of e res i s "fst stop" "snd stop"]
        by (auto simp add: append_fields.simps [of e res nFields i s])
    next
      case (Inr s1)
      with True "1.IH" [of s1] append_field_frame(2) [of e res i s s1] show ?thesis
        by (simp add: append_fields.simps [of e res nFields i s])
    qed
  qed
qed

lemma append_fields_ctx:
  "append_fields e res n i s = Inl (x, s') \<Longrightarrow> ctx s' = ctx s"
  "append_fields e res n i s = Inr s' \<Longrightarrow> ctx s' = ctx s"
  using append_fields_frame [of e res n i s x s'] by simp_all

lemma append_fields_effects:
  "append_fields e res n i s = Inl (x, s') \<Longrightarrow> effects s' = effects s"
  "append_fields e res n i s = Inr s' \<Longrightarrow> effects s' = effects s"
  using append_fields_frame [of e res n i s x s'] by simp_all

subsection \<open>Exits of the Query handler: handles and replies\<close>

text \<open>
  With the argument read, the handler holds nothing when the connection or the query
  failed and when it reaches the final send; it holds one connection and one result at
  every other exit, that is at each \<^verbatim>\<open>if (rc < 0) return rc;\<close> and at a fault.
\<close>

lemma open_handles_by_exit:
  assumes "0 \<le> read_rc e"
  shows "open_connections (effects (snd (method_query e (entry c)))) =
           (if PQstatus (connectdb e (conn_params c)) = CONNECTION_OK
               \<and> PQresultStatus (exec e (read_query e)) = PGRES_TUPLES_OK
               \<and> \<not> list_ex reply_call (effects (snd (method_query e (entry c))))
            then 1 else 0)"
    and "open_results (effects (snd (method_query e (entry c)))) =
           (if PQstatus (connectdb e (conn_params c)) = CONNECTION_OK
               \<and> PQresultStatus (exec e (read_query e)) = PGRES_TUPLES_OK
               \<and> \<not> list_ex reply_call (effects (snd (method_query e (entry c))))
            then 1 else 0)"
  using assms
  by (auto simp add: method_query_def end_label_def Let_def fprintf_stderr_def emit_def
        PQconnectdbParams_def PQexec_def PQclear_def PQfinish_def entry_def
        sd_bus_reply_method_return_void_def sd_bus_send_def open_connections_def
        open_results_def
        split: prod.splits sum.splits
        dest!: new_method_return_frame open_container_frame close_container_frame
          append_fields_effects)

text \<open>
  Each column that is encoded adds six writes to the reply, so a reply that is sent
  has as many entries as the result has columns, whatever the number of rows: it is the
  empty mapping only for a result without columns.
\<close>

lemma bus_call_reply:
  assumes "bus_call e (write_op w) s = (rc, s')" and "0 \<le> rc"
  shows "reply s' = reply s @ [w]"
  using assms by (auto simp add: bus_call_def write_op_def Let_def split: if_splits)

lemma append_pgsql_value_reply:
  "sd_bus_message_append_pgsql_value e sig oid val s = Done (rc, s') \<Longrightarrow> 0 \<le> rc \<Longrightarrow>
   length (reply s') = Suc (length (reply s))"
  by (auto simp add: sd_bus_message_append_pgsql_value_def sd_bus_message_append_basic_def
        Let_def split: if_splits option.splits dest!: bus_call_reply)

lemma append_field_reply:
  "append_field e res i s = Inr s' \<Longrightarrow> length (reply s') = length (reply s) + 6"
  by (auto simp add: append_field_def Let_def sd_bus_message_open_container_def
        sd_bus_message_close_container_def sd_bus_message_append_s_def
        split: prod.splits if_splits may_fault.splits
        dest!: bus_call_reply append_pgsql_value_reply)

lemma append_fields_reply:
  "append_fields e res n i s = Inr s' \<Longrightarrow> length (reply s') = length (reply s) + 6 * (n - i)"
proof (induction e res n i s rule: append_fields.induct)
  case (1 e res nFields i s)
  show ?case
  proof (cases "i < nFields")
    case False
    with "1.prems" show ?thesis by (simp add: append_fields.simps [of e res nFields i s])
  next
    case True
    show ?thesis
    proof (cases "append_field e res i s")
      case (Inl stop)
      with True "1.prems" show ?thesis
        by (simp add: append_fields.simps [of e res nFields i s])
    next
      case (Inr s1)
      with True "1.prems" have "append_fields e res nFields (Suc i) s1 = Inr s'"
        by (simp add: append_fields.simps [of e res nFields i s])
      from "1.IH" [OF True Inr this] append_field_reply [OF Inr] True show ?thesis
        by simp
    qed
  qed
qed

lemma new_method_return_reply:
  "sd_bus_message_new_method_return e s = (rc, s') \<Longrightarrow>
   effects s' = effects s \<and> (0 \<le> rc \<longrightarrow> reply s' = [])"
  by (auto simp add: sd_bus_message_new_method_return_def bus_call_def Let_def split: if_splits)

lemma open_container_reply:
  "sd_bus_message_open_container e t c s = (rc, s') \<Longrightarrow>
   effects s' = effects s \<and> (0 \<le> rc \<longrightarrow> reply s' = reply s @ [OpenContainer t c])"
  by (auto simp add: sd_bus_message_open_container_def bus_call_def write_op_def Let_def
        split: if_splits)

lemma close_container_reply:
  "sd_bus_message_close_container e s = (rc, s') \<Longrightarrow>
   effects s' = effects s \<and> (0 \<le> rc \<longrightarrow> reply s' = reply s @ [CloseContainer])"
  by (auto simp add: sd_bus_message_close_container_def bus_call_def write_op_def Let_def
        split: if_splits)

lemma append_fields_sent:
  "append_fields e res n 0 s = Inr s' \<Longrightarrow>
   effects s' = effects s \<and> length (reply s') = length (reply s) + 6 * n"
  using append_fields_effects(2) [of e res n 0 s s'] append_fields_reply [of e res n 0 s s']
  by simp

lemma sent_length:
  assumes "0 \<le> read_rc e"
    and "Bus_send m \<in> set (effects (snd (method_query e (entry c))))"
  shows "length m = 2 + 6 * length (columns (exec e (read_query e)))"
  using assms
  by (auto simp add: method_query_def end_label_def Let_def fprintf_stderr_def emit_def
        PQconnectdbParams_def PQexec_def PQclear_def PQfinish_def entry_def PQnfields_def
        sd_bus_reply_method_return_void_def sd_bus_send_def
        split: prod.splits sum.splits if_splits
        dest!: new_method_return_reply open_container_reply close_container_reply
          append_fields_sent append_fields_effects(1))

lemma sent_mapping_has_entries:
  assumes "0 \<le> read_rc e" and "columns (exec e (read_query e)) \<noteq> []"
  shows "Bus_send empty_mapping \<notin> set (effects (snd (method_query e (entry c))))"
proof
  assume "Bus_send empty_mapping \<in> set (effects (snd (method_query e (entry c))))"
  from sent_length [OF assms(1) this] assms(2) show False
    by (simp add: empty_mapping_def)
qed

subsection \<open>The handlers and the \<^verbatim>\<open>context\<close>\<close>

text \<open>
  The local buffer \<^verbatim>\<open>char port[6]\<close> is large enough for every 16-bit port and its
  terminator, so \<^verbatim>\<open>sprintf\<close> writes nothing outside it.
\<close>

lemma sprintf_d_length: "n < 10 ^ k \<Longrightarrow> 0 < k \<Longrightarrow> length (sprintf_d n) \<le> k"
proof (induction n arbitrary: k rule: sprintf_d.induct)
  case (1 n)
  show ?case
  proof (cases "n < 10")
    case True
    with "1.prems" show ?thesis
      by (simp add: sprintf_d.simps [of n])
  next
    case False
    with "1.prems" obtain k' where k: "k = Suc k'" and pos: "0 < k'"
      by (cases k; cases "k - 1") auto
    from "1.prems" k have "n div 10 < 10 ^ k'"
      by (simp add: less_mult_imp_div_less mult.commute)
    with "1.IH" [OF False this pos] False k show ?thesis
      by (simp add: sprintf_d.simps [of n])
  qed
qed

lemma port_fits_buffer: "length (sprintf_d (unat (p :: 16 word))) < 6"
proof -
  have "unat p < 2 ^ 16"
    using unsigned_less [of p, where ?'a = nat] by simp
  then have "unat p < 10 ^ 5"
    by simp
  from sprintf_d_length [OF this] show ?thesis
    by simp
qed

lemma method_ping_ctx: "ctx (snd (method_ping e s)) = ctx s"
  by (simp add: method_ping_def PQpingParams_def sd_bus_reply_method_return_q_def
        fprintf_stderr_def emit_def Let_def)

lemma method_query_ctx: "ctx (snd (method_query e s)) = ctx s"
  by (auto simp add: method_query_def end_label_def Let_def fprintf_stderr_def emit_def
        PQconnectdbParams_def PQexec_def PQclear_def PQfinish_def
        sd_bus_reply_method_errorf_def sd_bus_reply_method_return_void_def sd_bus_send_def
        split: prod.splits sum.splits
        dest!: new_method_return_frame open_container_frame close_container_frame
          append_fields_ctx)

text \<open>
  C10. Neither handler changes the \<^verbatim>\<open>context\<close>: in every environment and from every
  state, host and port after \<open>method_ping\<close> and after \<open>method_query\<close> are the host and
  port before, on every exit.
\<close>

theorem handlers_keep_context:
  "ctx (snd (method_ping e s)) = ctx s \<and> ctx (snd (method_query e s)) = ctx s"
  by (simp add: method_ping_ctx method_query_ctx)

subsection \<open>The Query handler: arguments and failures\<close>

text \<open>
  C6. When the string argument cannot be read, the handler's only effect is the
  \<^verbatim>\<open>InvalidArgs\<close> error reply, whose status it returns: no call to libpq is made.
\<close>

theorem missing_argument_no_database:
  "read_rc e < 0 \<Longrightarrow>
   fst (method_query e (entry c)) = Return (bus_rc e 0)
   \<and> effects (snd (method_query e (entry c))) =
       [Reply_method_errorf SD_BUS_ERROR_INVALID_ARGS ''Expected interface parameter'']
   \<and> \<not> list_ex database_call (effects (snd (method_query e (entry c))))"
  by (simp add: method_query_def sd_bus_reply_method_errorf_def emit_def entry_def)

theorem missing_argument_no_database_witness:
  "read_rc no_argument < 0
   \<and> fst (method_query no_argument (entry main_context)) = Return 0
   \<and> effects (snd (method_query no_argument (entry main_context))) =
       [Reply_method_errorf SD_BUS_ERROR_INVALID_ARGS ''Expected interface parameter'']
   \<and> \<not> list_ex database_call (effects (snd (method_query no_argument (entry main_context))))"
  using missing_argument_no_database [of no_argument main_context]
  by (simp add: no_argument_def healthy_def)

lemma method_query_error_reply:
  assumes "0 \<le> read_rc e"
  shows "\<not> list_ex error_reply (effects (snd (method_query e (entry c))))"
  using assms
  by (auto simp add: method_query_def end_label_def Let_def fprintf_stderr_def emit_def
        PQconnectdbParams_def PQexec_def PQclear_def PQfinish_def entry_def
        sd_bus_reply_method_return_void_def sd_bus_send_def
        split: prod.splits sum.splits
        dest!: new_method_return_frame open_container_frame close_container_frame
          append_fields_effects)

text \<open>
  With the argument read, a connection that does not reach \<^verbatim>\<open>CONNECTION_OK\<close> or a
  query that does not reach \<^verbatim>\<open>PGRES_TUPLES_OK\<close> always ends the same way: what was
  acquired is given back, the reply without content is attempted and not sent, and the
  handler returns a negative status: that of sd-bus when an earlier step failed, and
  \<^verbatim>\<open>-ENOMSG\<close> otherwise, because the vtable declares \<^verbatim>\<open>a{sv}\<close> for the result.
\<close>

lemma fail_soft_exit:
  assumes "0 \<le> read_rc e"
    and "PQstatus (connectdb e (conn_params c)) \<noteq> CONNECTION_OK
         \<or> PQresultStatus (exec e (read_query e)) \<noteq> PGRES_TUPLES_OK"
  shows "fst (method_query e (entry c)) =
           Return (if bus_rc e 0 < 0 then bus_rc e 0 else - ENOMSG)"
    and "\<not> list_ex reply_call (effects (snd (method_query e (entry c))))"
    and "protocol_error (method_query e (entry c))"
  using assms
  by (auto simp add: method_query_def end_label_def Let_def fprintf_stderr_def emit_def
        PQconnectdbParams_def PQexec_def PQclear_def PQfinish_def entry_def
        sd_bus_reply_method_return_void_def enforced_reply_signature_def instance_vtable_def
        ENOMSG_def protocol_error_def)

text \<open>
  C3. The fail-soft exits do not give the caller an empty success reply. With the
  argument read and the server down, the handler logs the failure, closes the connection
  and calls \<^verbatim>\<open>sd_bus_reply_method_return(m, NULL)\<close>; the vtable declares the result
  of \<^verbatim>\<open>Query\<close> as \<^verbatim>\<open>a{sv}\<close>, so the reply is not sent, the handler returns
  \<^verbatim>\<open>-ENOMSG\<close>, and the caller receives an error that is not \<^verbatim>\<open>InvalidArgs\<close>. The
  same happens when the server rejects the query.
\<close>

theorem fail_soft_reply_refused:
  "enforced_reply_signature ''Query'' = ''a{sv}''
   \<and> 0 \<le> read_rc server_down
   \<and> PQstatus (connectdb server_down (conn_params main_context)) \<noteq> CONNECTION_OK
   \<and> fst (method_query server_down (entry main_context)) = Return (- ENOMSG)
   \<and> effects (snd (method_query server_down (entry main_context))) =
       [Stderr (''connecting to host: /tmp, port: 15433'' @ newline),
        PQconnectdbParams_call [(''host'', ''/tmp''), (''port'', ''15433'')],
        Stderr ''Connection to database failed: no server'',
        PQfinish_call]
   \<and> protocol_error (method_query server_down (entry main_context))
   \<and> \<not> list_ex error_reply (effects (snd (method_query server_down (entry main_context))))
   \<and> 0 \<le> read_rc query_rejected
   \<and> PQstatus (connectdb query_rejected (conn_params main_context)) = CONNECTION_OK
   \<and> PQresultStatus (exec query_rejected (read_query query_rejected)) \<noteq> PGRES_TUPLES_OK
   \<and> fst (method_query query_rejected (entry main_context)) = Return (- ENOMSG)
   \<and> effects (snd (method_query query_rejected (entry main_context))) =
       [Stderr (''connecting to host: /tmp, port: 15433'' @ newline),
        PQconnectdbParams_call [(''host'', ''/tmp''), (''port'', ''15433'')],
        PQexec_call ''SELEC 1'',
        Stderr ''query failed: syntax error'',
        PQclear_call,
        PQfinish_call]
   \<and> protocol_error (method_query query_rejected (entry main_context))
   \<and> \<not> list_ex error_reply (effects (snd (method_query query_rejected (entry main_context))))"
  by (simp add: server_down_run query_rejected_run protocol_error_def)
     (simp add: server_down_def query_rejected_def healthy_def enforced_reply_signature_def
        instance_vtable_def ENOMSG_def)

end
